theory Spec2Isabelle
  imports Main "HOL-Library.Char_ord" "HOL-Library.List_Lexorder"
begin

section \<open>The store: students, courses, enrollments\<close>

text \<open>
  The rows are those of \<^verbatim>\<open>utils.ts\<close> (interfaces Student, Course, Enrollment) and of
  the tables created in \<^verbatim>\<open>EnrollmentAgent.onStart\<close>. Text columns are strings, the two
  INTEGER columns of a course are integers. A table is the list of its rows in insertion
  order. The tool functions of \<^verbatim>\<open>tools.ts\<close> receive the store as the parameter
  \<^verbatim>\<open>sql\<close>; each SQL statement they issue is one function below, with the meaning SQL
  gives to it on a list of rows. The engine's own faults (a violated constraint, an
  unavailable store) are not part of the model.
\<close>

record student =
  s_id :: string
  s_name :: string
  s_email :: string
  s_created_at :: string

record course =
  c_id :: string
  c_name :: string
  c_instructor :: string
  c_capacity :: int
  c_enrolled_count :: int

record enrollment =
  e_id :: int
  e_student_id :: string
  e_course_id :: string
  e_enrolled_at :: string

record db =
  students :: "student list"
  courses :: "course list"
  enrollments :: "enrollment list"
  enrollment_seq :: int \<comment> \<open>the next value of the AUTOINCREMENT column enrollments.id\<close>

text \<open>\<^verbatim>\<open>SELECT * FROM students WHERE email = ?\<close>\<close>

definition students_by_email :: "db \<Rightarrow> string \<Rightarrow> student list" where
  "students_by_email d email = filter (\<lambda>s. s_email s = email) (students d)"

text \<open>\<^verbatim>\<open>SELECT * FROM students WHERE id = ?\<close>\<close>

definition students_by_id :: "db \<Rightarrow> string \<Rightarrow> student list" where
  "students_by_id d student_id = filter (\<lambda>s. s_id s = student_id) (students d)"

text \<open>\<^verbatim>\<open>INSERT INTO students (id, name, email, created_at) VALUES (?, ?, ?, ?)\<close>\<close>

definition insert_student :: "db \<Rightarrow> string \<Rightarrow> string \<Rightarrow> string \<Rightarrow> string \<Rightarrow> db" where
  "insert_student d sid name email created =
     d\<lparr>students := students d @
          [\<lparr>s_id = sid, s_name = name, s_email = email, s_created_at = created\<rparr>]\<rparr>"

text \<open>\<^verbatim>\<open>SELECT * FROM courses ORDER BY id\<close>\<close>

definition courses_ordered :: "db \<Rightarrow> course list" where
  "courses_ordered d = sort_key c_id (courses d)"

text \<open>\<^verbatim>\<open>SELECT * FROM courses WHERE id = ?\<close>\<close>

definition courses_by_id :: "db \<Rightarrow> string \<Rightarrow> course list" where
  "courses_by_id d course_id = filter (\<lambda>c. c_id c = course_id) (courses d)"

text \<open>\<^verbatim>\<open>SELECT * FROM enrollments WHERE student_id = ? AND course_id = ?\<close>\<close>

definition enrollments_of :: "db \<Rightarrow> string \<Rightarrow> string \<Rightarrow> enrollment list" where
  "enrollments_of d student_id course_id =
     filter (\<lambda>e. e_student_id e = student_id \<and> e_course_id e = course_id) (enrollments d)"

text \<open>\<^verbatim>\<open>INSERT INTO enrollments (student_id, course_id, enrolled_at) VALUES (?, ?, ?)\<close>:
  the id column is filled from the sequence.\<close>

definition insert_enrollment :: "db \<Rightarrow> string \<Rightarrow> string \<Rightarrow> string \<Rightarrow> db" where
  "insert_enrollment d student_id course_id enrolled =
     d\<lparr>enrollments := enrollments d @
          [\<lparr>e_id = enrollment_seq d, e_student_id = student_id, e_course_id = course_id,
            e_enrolled_at = enrolled\<rparr>],
       enrollment_seq := enrollment_seq d + 1\<rparr>"

text \<open>\<^verbatim>\<open>DELETE FROM enrollments WHERE student_id = ? AND course_id = ?\<close>\<close>

definition delete_enrollments :: "db \<Rightarrow> string \<Rightarrow> string \<Rightarrow> db" where
  "delete_enrollments d student_id course_id =
     d\<lparr>enrollments :=
          filter (\<lambda>e. \<not> (e_student_id e = student_id \<and> e_course_id e = course_id))
            (enrollments d)\<rparr>"

text \<open>\<^verbatim>\<open>UPDATE courses SET enrolled_count = enrolled_count + delta WHERE id = ?\<close>, with
  delta 1 in enrollStudent and -1 in dropCourse.\<close>

definition bump_enrolled_count :: "db \<Rightarrow> int \<Rightarrow> string \<Rightarrow> db" where
  "bump_enrolled_count d delta course_id =
     d\<lparr>courses :=
          map (\<lambda>c. if c_id c = course_id
                    then c\<lparr>c_enrolled_count := c_enrolled_count c + delta\<rparr> else c)
            (courses d)\<rparr>"

text \<open>The join of checkEnrollment:
  \<^verbatim>\<open>SELECT e.*, c.name as course_name, c.instructor FROM enrollments e
    JOIN courses c ON e.course_id = c.id WHERE e.student_id = ? ORDER BY e.enrolled_at\<close>\<close>

definition enrollments_joined :: "db \<Rightarrow> string \<Rightarrow> (enrollment \<times> course) list" where
  "enrollments_joined d student_id =
     sort_key (\<lambda>(e, c). e_enrolled_at e)
       (concat (map (\<lambda>e. map (\<lambda>c. (e, c)) (filter (\<lambda>c. e_course_id e = c_id c) (courses d)))
          (filter (\<lambda>e. e_student_id e = student_id) (enrollments d))))"

section \<open>Rendering\<close>

text \<open>A template literal renders a number in decimal; the counts and capacities of the
  store are integers.\<close>

definition digit :: "nat \<Rightarrow> char" where
  "digit n = ''0123456789'' ! (n mod 10)"

function nat_to_string :: "nat \<Rightarrow> string" where
  "nat_to_string n = (if n < 10 then [digit n] else nat_to_string (n div 10) @ [digit n])"
  by pat_completeness auto
termination
  by (relation "measure id") auto

definition number_to_string :: "int \<Rightarrow> string" where
  "number_to_string i =
     (if i < 0 then ''-'' @ nat_to_string (nat (- i)) else nat_to_string (nat i))"

text \<open>\<^verbatim>\<open>lines.join("\n")\<close>\<close>

fun join_lines :: "string list \<Rightarrow> string" where
  "join_lines [] = []"
| "join_lines [l] = l"
| "join_lines (l # ls) = l @ [CHR 0x0A] @ join_lines ls"

section \<open>The tool functions of tools.ts\<close>

text \<open>
  Each function takes the store and returns the result string with the store it leaves.
  What the source reads from its surroundings is a parameter: \<open>fresh\<close> is the value of
  \<^verbatim>\<open>Math.random().toString(36).substring(2, 8).toUpperCase()\<close> and \<open>now\<close> the value of
  \<^verbatim>\<open>new Date().toISOString()\<close> in this call. The fields of \<^verbatim>\<open>args\<close> are strings, as
  the signatures declare them.
\<close>

definition registerStudent :: "string \<Rightarrow> string \<Rightarrow> db \<Rightarrow> string \<Rightarrow> string \<Rightarrow> string \<times> db" where
  "registerStudent fresh now d name email =
     (case students_by_email d email of
        existing # _ \<Rightarrow>
          (''Student already registered with email '' @ email @ ''. Student ID: '' @ s_id existing, d)
      | [] \<Rightarrow>
          (let sid = ''STU-'' @ fresh
           in (''Student registered successfully. Student ID: '' @ sid @ '', Name: '' @ name @
               '', Email: '' @ email,
               insert_student d sid name email now)))"

definition listCourses :: "db \<Rightarrow> string \<times> db" where
  "listCourses d =
     (let cs = courses_ordered d
      in if cs = [] then (''No courses are currently available.'', d)
         else (''Available courses:'' @ [CHR 0x0A] @
               join_lines (map (\<lambda>c. ''- '' @ c_id c @ '': '' @ c_name c @ '' (Instructor: '' @
                   c_instructor c @ '', Enrolled: '' @ number_to_string (c_enrolled_count c) @
                   ''/'' @ number_to_string (c_capacity c) @ '')'') cs), d))"

definition enrollStudent :: "string \<Rightarrow> db \<Rightarrow> string \<Rightarrow> string \<Rightarrow> string \<times> db" where
  "enrollStudent now d student_id course_id =
     (case students_by_id d student_id of
        [] \<Rightarrow> (''Error: Student '' @ student_id @ '' not found. Please register first.'', d)
      | student # _ \<Rightarrow>
     (case courses_by_id d course_id of
        [] \<Rightarrow> (''Error: Course '' @ course_id @ '' not found.'', d)
      | course # _ \<Rightarrow>
     if c_enrolled_count course \<ge> c_capacity course
     then (''Error: Course '' @ course_id @ '' ('' @ c_name course @ '') is full ('' @
           number_to_string (c_capacity course) @ ''/'' @
           number_to_string (c_capacity course) @ '').'', d)
     else if enrollments_of d student_id course_id \<noteq> []
     then (''Student '' @ student_id @ '' is already enrolled in '' @ course_id @ ''.'', d)
     else (''Successfully enrolled student '' @ student_id @ '' ('' @ s_name student @
           '') in '' @ course_id @ '' ('' @ c_name course @ '').'',
           bump_enrolled_count (insert_enrollment d student_id course_id now) 1 course_id)))"

definition dropCourse :: "db \<Rightarrow> string \<Rightarrow> string \<Rightarrow> string \<times> db" where
  "dropCourse d student_id course_id =
     (if enrollments_of d student_id course_id = []
      then (''Student '' @ student_id @ '' is not enrolled in '' @ course_id @ ''.'', d)
      else (''Successfully dropped student '' @ student_id @ '' from course '' @ course_id @ ''.'',
            bump_enrolled_count (delete_enrollments d student_id course_id) (- 1) course_id))"

definition checkEnrollment :: "db \<Rightarrow> string \<Rightarrow> string \<times> db" where
  "checkEnrollment d student_id =
     (case students_by_id d student_id of
        [] \<Rightarrow> (''Error: Student '' @ student_id @ '' not found.'', d)
      | student # _ \<Rightarrow>
          (let es = enrollments_joined d student_id
           in if es = []
              then (''Student '' @ s_name student @ '' ('' @ student_id @
                    '') is not enrolled in any courses.'', d)
              else (''Enrollments for '' @ s_name student @ '' ('' @ student_id @ ''):'' @
                    [CHR 0x0A] @
                    join_lines (map (\<lambda>(e, c). ''- '' @ e_course_id e @ '': '' @ c_name c @
                        '' (Instructor: '' @ c_instructor c @ '', Enrolled: '' @
                        e_enrolled_at e @ '')'') es), d)))"

text \<open>
  The dispatcher. \<^verbatim>\<open>args\<close> has the type \<^verbatim>\<open>Record<string, string>\<close>, under which every
  key reads as a string: a function from keys to strings. The casts
  \<^verbatim>\<open>args as { ... }\<close> read the named fields. The two values drawn from the surroundings
  are passed on to the functions that use them.
\<close>

type_synonym args = "string \<Rightarrow> string"

record env =
  fresh_id :: string
  now_iso :: string

definition executeTool :: "env \<Rightarrow> db \<Rightarrow> string \<Rightarrow> args \<Rightarrow> string \<times> db" where
  "executeTool ev d name args =
     (if name = ''register_student''
        then registerStudent (fresh_id ev) (now_iso ev) d (args ''name'') (args ''email'')
      else if name = ''list_courses'' then listCourses d
      else if name = ''enroll_student''
        then enrollStudent (now_iso ev) d (args ''student_id'') (args ''course_id'')
      else if name = ''drop_course''
        then dropCourse d (args ''student_id'') (args ''course_id'')
      else if name = ''check_enrollment'' then checkEnrollment d (args ''student_id'')
      else (''Unknown tool: '' @ name, d))"

section \<open>The tool-calling loop of the agent\<close>

text \<open>
  \<^verbatim>\<open>EnrollmentAgent._callLLM\<close> in \<^verbatim>\<open>server.ts\<close>. A turn of the conversation is a
  message; the model answers with an optional text and an optional list of tool calls.
\<close>

record message =
  role :: string
  content :: string

record tool_call =
  tc_name :: string
  tc_arguments :: args

record ai_response =
  response :: "string option"
  tool_calls :: "tool_call list option"

text \<open>
  What the loop takes from outside is gathered in one record: \<open>ai_run w n ms\<close> is the
  answer of the \<open>n\<close>-th call of \<^verbatim>\<open>env.AI.run\<close> (counted from 0) on the messages
  \<open>ms\<close>, \<open>json_stringify\<close> is \<^verbatim>\<open>JSON.stringify\<close> on an argument object, and
  \<open>surroundings w n i\<close> holds the random identifier and the time read by the \<open>i\<close>-th
  tool execution of round \<open>n\<close>.
\<close>

record world =
  ai_run :: "nat \<Rightarrow> message list \<Rightarrow> ai_response"
  json_stringify :: "args \<Rightarrow> string"
  surroundings :: "nat \<Rightarrow> nat \<Rightarrow> env"

text \<open>
  The state of the loop: the array \<^verbatim>\<open>messages\<close>, which the loop extends in place, and
  the store. The field \<open>invocations\<close> is not a variable of the source: it counts the
  calls of \<^verbatim>\<open>env.AI.run\<close> made so far.
\<close>

record agent =
  messages :: "message list"
  store :: db
  invocations :: nat

definition maxRounds :: nat where
  "maxRounds = 5"

text \<open>The list tested by \<^verbatim>\<open>response.tool_calls && response.tool_calls.length > 0\<close>:
  an absent list counts as empty.\<close>

definition requested :: "ai_response \<Rightarrow> tool_call list" where
  "requested r = (case tool_calls r of None \<Rightarrow> [] | Some tcs \<Rightarrow> tcs)"

definition toolCallSummary :: "world \<Rightarrow> tool_call list \<Rightarrow> string" where
  "toolCallSummary w tcs =
     join_lines (map (\<lambda>tc. ''[Calling '' @ tc_name tc @ ''('' @
                             json_stringify w (tc_arguments tc) @ '')]'') tcs)"

text \<open>\<^verbatim>\<open>for (const toolCall of response.tool_calls) { ... messages.push(...) }\<close>; the
  number \<open>i\<close> is the position of the next call in the round.\<close>

fun run_tool_calls ::
  "(nat \<Rightarrow> env) \<Rightarrow> nat \<Rightarrow> tool_call list \<Rightarrow> message list \<Rightarrow> db \<Rightarrow> message list \<times> db" where
  "run_tool_calls evs i [] ms d = (ms, d)"
| "run_tool_calls evs i (toolCall # rest) ms d =
     (case executeTool (evs i) d (tc_name toolCall) (tc_arguments toolCall) of
        (result, d') \<Rightarrow>
          run_tool_calls evs (Suc i) rest
            (ms @ [\<lparr>role = ''user'',
                    content = ''Tool result for '' @ tc_name toolCall @ '': '' @ result\<rparr>]) d')"

definition apology :: string where
  "apology = ''I'' @ [CHR 0x27] @ ''m sorry, I couldn'' @ [CHR 0x27] @
             ''t process that request. Could you rephrase?''"

definition completed :: string where
  "completed = ''I completed the requested operations. Is there anything else I can help you with?''"

text \<open>The \<^verbatim>\<open>for\<close> loop over \<^verbatim>\<open>round\<close>. A text answer counts when it is present
  and not the empty string (\<^verbatim>\<open>if (response.response)\<close>).\<close>

function callLLM_loop :: "world \<Rightarrow> nat \<Rightarrow> agent \<Rightarrow> string \<times> agent" where
  "callLLM_loop w round a =
     (if round < maxRounds then
        (let resp = ai_run w round (messages a);
             a1 = a\<lparr>invocations := Suc (invocations a)\<rparr>
         in if requested resp \<noteq> [] then
              (case run_tool_calls (surroundings w round) 0 (requested resp)
                      (messages a1 @
                         [\<lparr>role = ''assistant'',
                           content = toolCallSummary w (requested resp)\<rparr>])
                      (store a1) of
                 (ms, d) \<Rightarrow> callLLM_loop w (Suc round) (a1\<lparr>messages := ms, store := d\<rparr>))
            else (case response resp of
                    Some text \<Rightarrow> if text \<noteq> [] then (text, a1) else (apology, a1)
                  | None \<Rightarrow> (apology, a1)))
      else (completed, a))"
  by pat_completeness auto
termination
  by (relation "measure (\<lambda>(w, round, a). maxRounds - round)") auto

declare callLLM_loop.simps [simp del]

definition callLLM :: "world \<Rightarrow> message list \<Rightarrow> db \<Rightarrow> string \<times> agent" where
  "callLLM w ms d = callLLM_loop w 0 \<lparr>messages = ms, store = d, invocations = 0\<rparr>"

section \<open>What the properties are stated with\<close>

text \<open>The Enrollment rows that reference a course.\<close>

definition enrolled_rows :: "db \<Rightarrow> string \<Rightarrow> enrollment list" where
  "enrolled_rows d course_id = filter (\<lambda>e. e_course_id e = course_id) (enrollments d)"

text \<open>Every course row carries the number of Enrollment rows that reference it.\<close>

definition counts_consistent :: "db \<Rightarrow> bool" where
  "counts_consistent d =
     (\<forall>c \<in> set (courses d). c_enrolled_count c = int (length (enrolled_rows d (c_id c))))"

text \<open>The constraint \<^verbatim>\<open>UNIQUE(student_id, course_id)\<close> of the table enrollments and the
  constraint \<^verbatim>\<open>UNIQUE\<close> of the column students.email, which every stored state meets.\<close>

definition enrollments_unique :: "db \<Rightarrow> bool" where
  "enrollments_unique d = distinct (map (\<lambda>e. (e_student_id e, e_course_id e)) (enrollments d))"

definition emails_unique :: "db \<Rightarrow> bool" where
  "emails_unique d = distinct (map s_email (students d))"

text \<open>A sequence of operations on the store, each one a call of the dispatcher with the
  values it reads from its surroundings.\<close>

fun run_tools :: "db \<Rightarrow> (env \<times> string \<times> args) list \<Rightarrow> db" where
  "run_tools d [] = d"
| "run_tools d ((ev, name, args) # rest) = run_tools (snd (executeTool ev d name args)) rest"

text \<open>
  The dispatch of one round as the specification words it: the invocations are executed
  in the order returned, so invocation \<open>i\<close> runs in the store left by the invocations
  before it (\<open>store_before\<close>), and its result turn holds the literal result string,
  tagged with the name of the operation (\<open>result_turn\<close>). These two definitions are
  compared with the loop of the source, \<open>run_tool_calls\<close>.
\<close>

fun store_before :: "(nat \<Rightarrow> env) \<Rightarrow> tool_call list \<Rightarrow> db \<Rightarrow> nat \<Rightarrow> db" where
  "store_before evs tcs d 0 = d"
| "store_before evs tcs d (Suc i) =
     snd (executeTool (evs i) (store_before evs tcs d i) (tc_name (tcs ! i))
            (tc_arguments (tcs ! i)))"

definition result_turn :: "(nat \<Rightarrow> env) \<Rightarrow> tool_call list \<Rightarrow> db \<Rightarrow> nat \<Rightarrow> message" where
  "result_turn evs tcs d i =
     \<lparr>role = ''user'',
      content = ''Tool result for '' @ tc_name (tcs ! i) @ '': '' @
        fst (executeTool (evs i) (store_before evs tcs d i) (tc_name (tcs ! i))
               (tc_arguments (tcs ! i)))\<rparr>"

section \<open>Example states\<close>

text \<open>Two registered students and two of the seed courses, the second one with room for
  a single student.\<close>

definition campus :: db where
  "campus =
     \<lparr>students =
        [\<lparr>s_id = ''STU-A1B2C3'', s_name = ''Alice'', s_email = ''alice@x.edu'',
          s_created_at = ''2025-01-01T09:00:00.000Z''\<rparr>,
         \<lparr>s_id = ''STU-D4E5F6'', s_name = ''Bob'', s_email = ''bob@x.edu'',
          s_created_at = ''2025-01-01T09:05:00.000Z''\<rparr>],
      courses =
        [\<lparr>c_id = ''CS101'', c_name = ''Introduction to Computer Science'',
          c_instructor = ''Dr. Smith'', c_capacity = 30, c_enrolled_count = 0\<rparr>,
         \<lparr>c_id = ''MATH201'', c_name = ''Linear Algebra'',
          c_instructor = ''Dr. Johnson'', c_capacity = 1, c_enrolled_count = 0\<rparr>],
      enrollments = [],
      enrollment_seq = 1\<rparr>"

text \<open>The same store after Alice has taken the only seat of MATH201.\<close>

definition campus_full :: db where
  "campus_full =
     campus\<lparr>courses :=
        [\<lparr>c_id = ''CS101'', c_name = ''Introduction to Computer Science'',
          c_instructor = ''Dr. Smith'', c_capacity = 30, c_enrolled_count = 0\<rparr>,
         \<lparr>c_id = ''MATH201'', c_name = ''Linear Algebra'',
          c_instructor = ''Dr. Johnson'', c_capacity = 1, c_enrolled_count = 1\<rparr>],
      enrollments :=
        [\<lparr>e_id = 1, e_student_id = ''STU-A1B2C3'', e_course_id = ''MATH201'',
          e_enrolled_at = ''2025-01-02T10:00:00.000Z''\<rparr>],
      enrollment_seq := 2\<rparr>"

definition pair_args :: "string \<Rightarrow> string \<Rightarrow> args" where
  "pair_args student_id course_id =
     (\<lambda>key. if key = ''student_id'' then student_id
            else if key = ''course_id'' then course_id else [])"

definition noon :: env where
  "noon = \<lparr>fresh_id = ''K3X9QZ'', now_iso = ''2025-01-02T12:00:00.000Z''\<rparr>"

text \<open>A round of two invocations, the first of which fails.\<close>

definition two_calls :: "tool_call list" where
  "two_calls =
     [\<lparr>tc_name = ''enroll_student'', tc_arguments = pair_args ''UNKNOWN'' ''CS101''\<rparr>,
      \<lparr>tc_name = ''enroll_student'', tc_arguments = pair_args ''STU-A1B2C3'' ''CS101''\<rparr>]"

text \<open>A model that asks for the same two invocations in every round, and a model that
  answers with nothing.\<close>

definition eager_world :: world where
  "eager_world =
     \<lparr>ai_run = (\<lambda>n ms. \<lparr>response = None, tool_calls = Some two_calls\<rparr>),
      json_stringify = (\<lambda>a. ''{}''),
      surroundings = (\<lambda>n i. noon)\<rparr>"

definition silent_world :: world where
  "silent_world =
     \<lparr>ai_run = (\<lambda>n ms. \<lparr>response = None, tool_calls = None\<rparr>),
      json_stringify = (\<lambda>a. ''{}''),
      surroundings = (\<lambda>n i. noon)\<rparr>"

section \<open>Rejections of the enrollment operations\<close>

text \<open>
  C4. When the student and the course exist and the enrolled_count of the course equals
  its capacity, enrollStudent returns the "is full" string and the store is the one it
  was given: no Enrollment row is created and no count changes.
\<close>

theorem enroll_full_course:
  assumes "students_by_id d student_id \<noteq> []"
      and "courses_by_id d course_id = course # others"
      and "c_enrolled_count course = c_capacity course"
  shows "enrollStudent now d student_id course_id =
           (''Error: Course '' @ course_id @ '' ('' @ c_name course @ '') is full ('' @
            number_to_string (c_capacity course) @ ''/'' @
            number_to_string (c_capacity course) @ '').'', d)"
  using assms by (simp add: enrollStudent_def split: list.splits)

theorem enroll_full_course_witness:
  "students_by_id campus_full ''STU-D4E5F6'' \<noteq> [] \<and>
   enrollStudent ''2025-01-03T08:00:00.000Z'' campus_full ''STU-D4E5F6'' ''MATH201'' =
     (''Error: Course MATH201 (Linear Algebra) is full (1/1).'', campus_full)"
proof -
  have st: "students_by_id campus_full ''STU-D4E5F6'' \<noteq> []"
    by (simp add: students_by_id_def campus_full_def campus_def)
  have co: "courses_by_id campus_full ''MATH201'' =
      \<lparr>c_id = ''MATH201'', c_name = ''Linear Algebra'', c_instructor = ''Dr. Johnson'',
       c_capacity = 1, c_enrolled_count = 1\<rparr> # []"
    by (simp add: courses_by_id_def campus_full_def campus_def)
  have one: "number_to_string 1 = ''1''"
    by (simp add: number_to_string_def digit_def)
  from enroll_full_course [OF st co, of "''2025-01-03T08:00:00.000Z''"] st one
  show ?thesis by simp
qed

text \<open>
  C7. When no Enrollment row exists for the pair (student, course), dropCourse returns
  the "is not enrolled" string and the store is the one it was given: no row is deleted
  and no count is decremented.
\<close>

theorem drop_not_enrolled:
  assumes "enrollments_of d student_id course_id = []"
  shows "dropCourse d student_id course_id =
           (''Student '' @ student_id @ '' is not enrolled in '' @ course_id @ ''.'', d)"
  using assms by (simp add: dropCourse_def)

theorem drop_not_enrolled_witness:
  "enrollments_of campus_full ''STU-D4E5F6'' ''MATH201'' = [] \<and>
   dropCourse campus_full ''STU-D4E5F6'' ''MATH201'' =
     (''Student STU-D4E5F6 is not enrolled in MATH201.'', campus_full)"
proof -
  have no: "enrollments_of campus_full ''STU-D4E5F6'' ''MATH201'' = []"
    by (simp add: enrollments_of_def campus_full_def campus_def)
  from drop_not_enrolled [OF no] no show ?thesis by simp
qed

text \<open>
  C9. enrollStudent checks, in this order, that the student exists, that the course
  exists, that the course is not at capacity, and that the student is not already
  enrolled. A call naming a student that does not exist returns "Student ... not found"
  whatever the course argument; a call naming an existing student and a course that does
  not exist returns "Course ... not found", which is neither the "is full" nor the
  "already enrolled" string. The store is unchanged in each case.
\<close>

theorem enroll_check_order:
  "(students_by_id d student_id = [] \<longrightarrow>
      enrollStudent now d student_id course_id =
        (''Error: Student '' @ student_id @ '' not found. Please register first.'', d)) \<and>
   (students_by_id d student_id \<noteq> [] \<and> courses_by_id d course_id = [] \<longrightarrow>
      enrollStudent now d student_id course_id =
        (''Error: Course '' @ course_id @ '' not found.'', d)) \<and>
   (students_by_id d student_id \<noteq> [] \<and> courses_by_id d course_id = course # others \<and>
    c_enrolled_count course \<ge> c_capacity course \<longrightarrow>
      enrollStudent now d student_id course_id =
        (''Error: Course '' @ course_id @ '' ('' @ c_name course @ '') is full ('' @
         number_to_string (c_capacity course) @ ''/'' @
         number_to_string (c_capacity course) @ '').'', d)) \<and>
   (students_by_id d student_id \<noteq> [] \<and> courses_by_id d course_id = course # others \<and>
    c_enrolled_count course < c_capacity course \<and>
    enrollments_of d student_id course_id \<noteq> [] \<longrightarrow>
      enrollStudent now d student_id course_id =
        (''Student '' @ student_id @ '' is already enrolled in '' @ course_id @ ''.'', d))"
  by (simp add: enrollStudent_def split: list.splits)

theorem enroll_check_order_witness:
  "students_by_id campus_full ''UNKNOWN'' = [] \<and>
   enrollStudent ''t'' campus_full ''UNKNOWN'' ''MATH201'' =
     (''Error: Student UNKNOWN not found. Please register first.'', campus_full) \<and>
   enrollStudent ''t'' campus_full ''UNKNOWN'' ''NOPE999'' =
     (''Error: Student UNKNOWN not found. Please register first.'', campus_full) \<and>
   students_by_id campus_full ''STU-D4E5F6'' \<noteq> [] \<and>
   courses_by_id campus_full ''NOPE999'' = [] \<and>
   enrollStudent ''t'' campus_full ''STU-D4E5F6'' ''NOPE999'' =
     (''Error: Course NOPE999 not found.'', campus_full)"
proof -
  have no: "students_by_id campus_full ''UNKNOWN'' = []"
    and st: "students_by_id campus_full ''STU-D4E5F6'' \<noteq> []"
    and co: "courses_by_id campus_full ''NOPE999'' = []"
    by (simp_all add: students_by_id_def courses_by_id_def campus_full_def campus_def)
  from no st co
    enroll_check_order [of campus_full "''UNKNOWN''" "''t''" "''MATH201''"]
    enroll_check_order [of campus_full "''UNKNOWN''" "''t''" "''NOPE999''"]
    enroll_check_order [of campus_full "''STU-D4E5F6''" "''t''" "''NOPE999''"]
  show ?thesis by simp
qed

text \<open>
  C10. For a tool name that is none of register_student, list_courses, enroll_student,
  drop_course and check_enrollment, executeTool returns "Unknown tool: " followed by the
  name, and the store is the one it was given.
\<close>

theorem unknown_tool:
  assumes "name \<notin> {''register_student'', ''list_courses'', ''enroll_student'',
                    ''drop_course'', ''check_enrollment''}"
  shows "executeTool ev d name args = (''Unknown tool: '' @ name, d)"
  using assms by (simp add: executeTool_def)

theorem unknown_tool_witness:
  "''delete_student'' \<notin> {''register_student'', ''list_courses'', ''enroll_student'',
                            ''drop_course'', ''check_enrollment''} \<and>
   executeTool noon campus ''delete_student'' (pair_args ''STU-A1B2C3'' ''CS101'') =
     (''Unknown tool: delete_student'', campus)"
proof -
  have other: "''delete_student'' \<notin> {''register_student'', ''list_courses'',
      ''enroll_student'', ''drop_course'', ''check_enrollment''}"
    by simp
  from unknown_tool [OF other] other show ?thesis by simp
qed

section \<open>Repeated calls\<close>

lemma filter_key_distinct:
  "distinct (map f xs) \<Longrightarrow> filter (\<lambda>x. f x = k) xs = a # rest \<Longrightarrow> rest = []"
proof (induction xs)
  case Nil
  then show ?case by simp
next
  case (Cons x xs)
  show ?case
  proof (cases "f x = k")
    case True
    with Cons.prems have "k \<notin> f ` set xs" by auto
    then have "filter (\<lambda>x. f x = k) xs = []" by (auto simp: filter_empty_conv)
    with Cons.prems True show ?thesis by simp
  next
    case False
    with Cons show ?thesis by simp
  qed
qed

text \<open>What a successful enrollment found in the store, and the store it leaves.\<close>

lemma enroll_success:
  assumes "enrollStudent now d student_id course_id =
           (''Successfully enrolled student '' @ student_id @ '' ('' @ sname @ '') in '' @
            course_id @ '' ('' @ cname @ '').'', d1)"
  shows "\<exists>course others. students_by_id d student_id \<noteq> [] \<and>
           courses_by_id d course_id = course # others \<and>
           c_enrolled_count course < c_capacity course \<and>
           enrollments_of d student_id course_id = [] \<and>
           d1 = bump_enrolled_count (insert_enrollment d student_id course_id now) 1 course_id"
proof (cases "students_by_id d student_id")
  case Nil
  with assms show ?thesis by (simp add: enrollStudent_def)
next
  case st: (Cons student srest)
  show ?thesis
  proof (cases "courses_by_id d course_id")
    case Nil
    with st assms show ?thesis by (simp add: enrollStudent_def)
  next
    case co: (Cons course others)
    show ?thesis
    proof (cases "c_enrolled_count course \<ge> c_capacity course")
      case True
      with st co assms show ?thesis by (simp add: enrollStudent_def)
    next
      case room: False
      show ?thesis
      proof (cases "enrollments_of d student_id course_id = []")
        case True
        with st co room assms show ?thesis by (simp add: enrollStudent_def)
      next
        case False
        with st co room assms show ?thesis by (simp add: enrollStudent_def)
      qed
    qed
  qed
qed

lemma store_after_enroll:
  "students_by_id (bump_enrolled_count (insert_enrollment d sid cid now) delta cid') x =
     students_by_id d x"
  "enrollments_of (bump_enrolled_count (insert_enrollment d sid cid now) delta cid') sid cid =
     enrollments_of d sid cid @
       [\<lparr>e_id = enrollment_seq d, e_student_id = sid, e_course_id = cid, e_enrolled_at = now\<rparr>]"
  "courses_by_id (bump_enrolled_count (insert_enrollment d sid cid now) delta cid) cid =
     map (\<lambda>c. c\<lparr>c_enrolled_count := c_enrolled_count c + delta\<rparr>) (courses_by_id d cid)"
  by (simp_all add: students_by_id_def enrollments_of_def courses_by_id_def
        bump_enrolled_count_def insert_enrollment_def filter_map comp_def)

text \<open>
  C5, as stated: after a first enrollStudent call that succeeds, a second call with the
  same pair returns the "already enrolled" string. It does not when the first call took
  the last seat: the capacity check comes before the duplicate check, and the second
  call returns the "is full" string.
\<close>

theorem enroll_twice_counterexample:
  "enrollStudent ''2025-01-02T10:00:00.000Z'' campus ''STU-A1B2C3'' ''MATH201'' =
     (''Successfully enrolled student STU-A1B2C3 (Alice) in MATH201 (Linear Algebra).'',
      campus_full) \<and>
   enrollStudent ''2025-01-02T10:01:00.000Z'' campus_full ''STU-A1B2C3'' ''MATH201'' =
     (''Error: Course MATH201 (Linear Algebra) is full (1/1).'', campus_full) \<and>
   fst (enrollStudent ''2025-01-02T10:01:00.000Z'' campus_full ''STU-A1B2C3'' ''MATH201'') \<noteq>
     ''Student STU-A1B2C3 is already enrolled in MATH201.''"
  by (simp add: enrollStudent_def students_by_id_def courses_by_id_def enrollments_of_def
        insert_enrollment_def bump_enrolled_count_def campus_full_def campus_def
        number_to_string_def digit_def)

text \<open>
  C5, amended: after a first enrollStudent call that succeeds, a second call with the same
  pair leaves the store unchanged, so the enrolled_count of the course keeps the value it
  had after the first call and exactly one Enrollment row exists for the pair. The second
  call returns the "already enrolled" string when the course still has room after the
  first call, and the "is full" string when the first call filled it.
\<close>

theorem enroll_twice_unchanged:
  assumes first: "enrollStudent now1 d student_id course_id =
           (''Successfully enrolled student '' @ student_id @ '' ('' @ sname @ '') in '' @
            course_id @ '' ('' @ cname @ '').'', d1)"
  shows "\<exists>course others. courses_by_id d1 course_id = course # others \<and>
           enrollStudent now2 d1 student_id course_id =
             (if c_enrolled_count course \<ge> c_capacity course
              then ''Error: Course '' @ course_id @ '' ('' @ c_name course @ '') is full ('' @
                   number_to_string (c_capacity course) @ ''/'' @
                   number_to_string (c_capacity course) @ '').''
              else ''Student '' @ student_id @ '' is already enrolled in '' @ course_id @ ''.'',
              d1) \<and>
           length (enrollments_of d1 student_id course_id) = 1"
proof -
  from enroll_success [OF first] obtain course others where
    st: "students_by_id d student_id \<noteq> []" and
    co: "courses_by_id d course_id = course # others" and
    en: "enrollments_of d student_id course_id = []" and
    d1: "d1 = bump_enrolled_count (insert_enrollment d student_id course_id now1) 1 course_id"
    by blast
  from st obtain student srest where st': "students_by_id d1 student_id = student # srest"
    by (cases "students_by_id d student_id") (simp_all add: d1 store_after_enroll)
  have co': "courses_by_id d1 course_id =
      course\<lparr>c_enrolled_count := c_enrolled_count course + 1\<rparr> #
      map (\<lambda>c. c\<lparr>c_enrolled_count := c_enrolled_count c + 1\<rparr>) others"
    by (simp add: d1 store_after_enroll co)
  have en': "enrollments_of d1 student_id course_id =
      [\<lparr>e_id = enrollment_seq d, e_student_id = student_id, e_course_id = course_id,
        e_enrolled_at = now1\<rparr>]"
    by (simp add: d1 store_after_enroll en)
  have "enrollStudent now2 d1 student_id course_id =
      (if c_enrolled_count (course\<lparr>c_enrolled_count := c_enrolled_count course + 1\<rparr>)
            \<ge> c_capacity (course\<lparr>c_enrolled_count := c_enrolled_count course + 1\<rparr>)
       then ''Error: Course '' @ course_id @ '' ('' @ c_name course @ '') is full ('' @
            number_to_string (c_capacity course) @ ''/'' @
            number_to_string (c_capacity course) @ '').''
       else ''Student '' @ student_id @ '' is already enrolled in '' @ course_id @ ''.'',
       d1)"
    by (simp add: enrollStudent_def st' co' en')
  with co' en' show ?thesis by simp
qed

theorem enroll_twice_unchanged_witness:
  "enrollStudent ''2025-01-02T10:00:00.000Z'' campus ''STU-A1B2C3'' ''CS101'' =
     (''Successfully enrolled student STU-A1B2C3 (Alice) in CS101 (Introduction to Computer Science).'',
      snd (enrollStudent ''2025-01-02T10:00:00.000Z'' campus ''STU-A1B2C3'' ''CS101'')) \<and>
   enrollStudent ''2025-01-02T10:01:00.000Z''
       (snd (enrollStudent ''2025-01-02T10:00:00.000Z'' campus ''STU-A1B2C3'' ''CS101''))
       ''STU-A1B2C3'' ''CS101'' =
     (''Student STU-A1B2C3 is already enrolled in CS101.'',
      snd (enrollStudent ''2025-01-02T10:00:00.000Z'' campus ''STU-A1B2C3'' ''CS101'')) \<and>
   length (enrollments_of (snd (enrollStudent ''2025-01-02T10:00:00.000Z'' campus
             ''STU-A1B2C3'' ''CS101'')) ''STU-A1B2C3'' ''CS101'') = 1"
proof -
  let ?d1 = "snd (enrollStudent ''2025-01-02T10:00:00.000Z'' campus ''STU-A1B2C3'' ''CS101'')"
  have first: "enrollStudent ''2025-01-02T10:00:00.000Z'' campus ''STU-A1B2C3'' ''CS101'' =
      (''Successfully enrolled student '' @ ''STU-A1B2C3'' @ '' ('' @ ''Alice'' @ '') in '' @
       ''CS101'' @ '' ('' @ ''Introduction to Computer Science'' @ '').'', ?d1)"
    by (simp add: enrollStudent_def students_by_id_def courses_by_id_def enrollments_of_def
          campus_def)
  have co: "courses_by_id ?d1 ''CS101'' =
      [\<lparr>c_id = ''CS101'', c_name = ''Introduction to Computer Science'',
        c_instructor = ''Dr. Smith'', c_capacity = 30, c_enrolled_count = 1\<rparr>]"
    by (simp add: enrollStudent_def students_by_id_def courses_by_id_def enrollments_of_def
          insert_enrollment_def bump_enrolled_count_def campus_def)
  from enroll_twice_unchanged [OF first, of "''2025-01-02T10:01:00.000Z''"] first co
  show ?thesis by simp
qed

text \<open>registerStudent itself keeps the stored emails pairwise different.\<close>

lemma register_keeps_emails_unique:
  assumes "emails_unique d"
  shows "emails_unique (snd (registerStudent fresh now d name email))"
proof (cases "students_by_email d email")
  case Nil
  then have "email \<notin> s_email ` set (students d)"
    by (auto simp: students_by_email_def filter_empty_conv)
  with assms Nil show ?thesis
    by (simp add: registerStudent_def insert_student_def emails_unique_def)
next
  case (Cons st rest)
  with assms show ?thesis by (simp add: registerStudent_def)
qed

text \<open>
  C6. With the emails of the stored students pairwise different, as the table requires,
  two registerStudent calls with the same email give result strings that carry the same
  student id, the id of the one Student row with that email. The second call reports
  "already registered" and leaves the store as the first call left it, so exactly one
  Student row with that email exists afterwards.
\<close>

theorem register_twice:
  assumes uniq: "emails_unique d"
      and first: "registerStudent fresh1 now1 d name1 email = (r1, d1)"
      and second: "registerStudent fresh2 now2 d1 name2 email = (r2, d2)"
  shows "\<exists>st. students_by_email d1 email = [st] \<and>
           (r1 = ''Student registered successfully. Student ID: '' @ s_id st @ '', Name: '' @
                 name1 @ '', Email: '' @ email \<or>
            r1 = ''Student already registered with email '' @ email @ ''. Student ID: '' @ s_id st) \<and>
           r2 = ''Student already registered with email '' @ email @ ''. Student ID: '' @ s_id st \<and>
           d2 = d1 \<and> students_by_email d2 email = [st]"
proof (cases "students_by_email d email")
  case Nil
  with first second show ?thesis
    by (auto simp: registerStudent_def insert_student_def students_by_email_def Let_def)
next
  case (Cons st rest)
  with uniq have "rest = []"
    unfolding emails_unique_def students_by_email_def by (rule filter_key_distinct)
  with Cons first second show ?thesis
    by (auto simp: registerStudent_def)
qed

theorem register_twice_witness:
  "emails_unique campus \<and>
   registerStudent ''K3X9QZ'' ''2025-01-02T12:00:00.000Z'' campus ''Carol'' ''carol@x.edu'' =
     (''Student registered successfully. Student ID: STU-K3X9QZ, Name: Carol, Email: carol@x.edu'',
      snd (registerStudent ''K3X9QZ'' ''2025-01-02T12:00:00.000Z'' campus ''Carol'' ''carol@x.edu'')) \<and>
   registerStudent ''P7M2RT'' ''2025-01-02T12:01:00.000Z''
       (snd (registerStudent ''K3X9QZ'' ''2025-01-02T12:00:00.000Z'' campus ''Carol'' ''carol@x.edu''))
       ''Carol'' ''carol@x.edu'' =
     (''Student already registered with email carol@x.edu. Student ID: STU-K3X9QZ'',
      snd (registerStudent ''K3X9QZ'' ''2025-01-02T12:00:00.000Z'' campus ''Carol'' ''carol@x.edu'')) \<and>
   length (students_by_email
      (snd (registerStudent ''K3X9QZ'' ''2025-01-02T12:00:00.000Z'' campus ''Carol'' ''carol@x.edu''))
      ''carol@x.edu'') = 1"
proof -
  let ?d1 = "snd (registerStudent ''K3X9QZ'' ''2025-01-02T12:00:00.000Z'' campus ''Carol'' ''carol@x.edu'')"
  obtain r2 d2 where second:
    "registerStudent ''P7M2RT'' ''2025-01-02T12:01:00.000Z'' ?d1 ''Carol'' ''carol@x.edu'' = (r2, d2)"
    by (cases "registerStudent ''P7M2RT'' ''2025-01-02T12:01:00.000Z'' ?d1 ''Carol'' ''carol@x.edu''")
  have uniq: "emails_unique campus"
    by (simp add: emails_unique_def campus_def)
  have first: "registerStudent ''K3X9QZ'' ''2025-01-02T12:00:00.000Z'' campus ''Carol'' ''carol@x.edu'' =
      (''Student registered successfully. Student ID: STU-K3X9QZ, Name: Carol, Email: carol@x.edu'', ?d1)"
    by (simp add: registerStudent_def students_by_email_def campus_def)
  have row: "students_by_email ?d1 ''carol@x.edu'' =
      [\<lparr>s_id = ''STU-K3X9QZ'', s_name = ''Carol'', s_email = ''carol@x.edu'',
        s_created_at = ''2025-01-02T12:00:00.000Z''\<rparr>]"
    by (simp add: registerStudent_def students_by_email_def insert_student_def campus_def)
  from register_twice [OF uniq first second] uniq first row second
  show ?thesis by auto
qed

section \<open>The enrolled count and the Enrollment rows\<close>

text \<open>enrollStudent either leaves the store as it is or inserts one row and increments
  the count of its course; dropCourse either leaves the store as it is or deletes the
  rows of the pair and decrements the count of its course. The other three operations
  change neither table.\<close>

lemma enroll_store:
  "snd (enrollStudent now d sid cid) = d \<or>
   (enrollments_of d sid cid = [] \<and>
    snd (enrollStudent now d sid cid) = bump_enrolled_count (insert_enrollment d sid cid now) 1 cid)"
  by (simp add: enrollStudent_def split: list.splits)

lemma drop_store:
  "snd (dropCourse d sid cid) = d \<or>
   (enrollments_of d sid cid \<noteq> [] \<and>
    snd (dropCourse d sid cid) = bump_enrolled_count (delete_enrollments d sid cid) (- 1) cid)"
  by (simp add: dropCourse_def)

lemma register_store:
  "courses (snd (registerStudent fresh now d name email)) = courses d \<and>
   enrollments (snd (registerStudent fresh now d name email)) = enrollments d"
  by (simp add: registerStudent_def insert_student_def Let_def split: list.splits)

lemma list_store: "snd (listCourses d) = d"
  by (simp add: listCourses_def Let_def)

lemma check_store: "snd (checkEnrollment d sid) = d"
  by (simp add: checkEnrollment_def Let_def split: list.splits)

lemma insert_counts:
  assumes "counts_consistent d"
  shows "counts_consistent (bump_enrolled_count (insert_enrollment d sid cid now) 1 cid)"
  using assms
  by (auto simp: counts_consistent_def enrolled_rows_def bump_enrolled_count_def
        insert_enrollment_def)

lemma insert_unique:
  assumes "enrollments_unique d" and "enrollments_of d sid cid = []"
  shows "enrollments_unique (bump_enrolled_count (insert_enrollment d sid cid now) 1 cid)"
  using assms
  by (auto simp: enrollments_unique_def enrollments_of_def bump_enrolled_count_def
        insert_enrollment_def filter_empty_conv)

lemma delete_unique:
  assumes "enrollments_unique d"
  shows "enrollments_unique (bump_enrolled_count (delete_enrollments d sid cid) delta cid)"
  using assms
  by (simp add: enrollments_unique_def bump_enrolled_count_def delete_enrollments_def
        distinct_map_filter)

lemma one_row_per_pair:
  assumes "enrollments_unique d" and "enrollments_of d sid cid \<noteq> []"
  shows "length (enrollments_of d sid cid) = 1"
proof -
  from assms(2) obtain e rest where er: "enrollments_of d sid cid = e # rest"
    by (cases "enrollments_of d sid cid") auto
  have "filter (\<lambda>e. (e_student_id e, e_course_id e) = (sid, cid)) (enrollments d) = e # rest"
    using er by (simp add: enrollments_of_def)
  with assms(1) have "rest = []"
    unfolding enrollments_unique_def by (rule filter_key_distinct)
  with er show ?thesis by simp
qed

lemma delete_rows_same_course:
  "length (enrolled_rows (delete_enrollments d sid cid) cid) + length (enrollments_of d sid cid) =
     length (enrolled_rows d cid)"
proof -
  have "length (filter (\<lambda>e. e_student_id e = sid) (enrolled_rows d cid)) +
        length (filter (\<lambda>e. \<not> e_student_id e = sid) (enrolled_rows d cid)) =
        length (enrolled_rows d cid)"
    by (rule sum_length_filter_compl)
  moreover have "filter (\<lambda>e. e_student_id e = sid) (enrolled_rows d cid) = enrollments_of d sid cid"
    by (auto simp: enrolled_rows_def enrollments_of_def intro: filter_cong)
  moreover have "filter (\<lambda>e. \<not> e_student_id e = sid) (enrolled_rows d cid) =
                 enrolled_rows (delete_enrollments d sid cid) cid"
    by (auto simp: enrolled_rows_def delete_enrollments_def intro: filter_cong)
  ultimately show ?thesis by simp
qed

lemma delete_rows_other_course:
  "cid' \<noteq> cid \<Longrightarrow> enrolled_rows (delete_enrollments d sid cid) cid' = enrolled_rows d cid'"
  by (auto simp: enrolled_rows_def delete_enrollments_def intro: filter_cong)

lemma enrolled_rows_bump:
  "enrolled_rows (bump_enrolled_count d delta cid) x = enrolled_rows d x"
  by (simp add: enrolled_rows_def bump_enrolled_count_def)

lemma delete_counts:
  assumes cc: "counts_consistent d" and un: "enrollments_unique d"
      and ex: "enrollments_of d sid cid \<noteq> []"
  shows "counts_consistent (bump_enrolled_count (delete_enrollments d sid cid) (- 1) cid)"
  unfolding counts_consistent_def
proof
  fix c' assume "c' \<in> set (courses (bump_enrolled_count (delete_enrollments d sid cid) (- 1) cid))"
  then obtain c where c: "c \<in> set (courses d)"
    and c': "c' = (if c_id c = cid then c\<lparr>c_enrolled_count := c_enrolled_count c + (- 1)\<rparr> else c)"
    by (auto simp: bump_enrolled_count_def delete_enrollments_def)
  from cc c have cnt: "c_enrolled_count c = int (length (enrolled_rows d (c_id c)))"
    by (simp add: counts_consistent_def)
  show "c_enrolled_count c' =
        int (length (enrolled_rows (bump_enrolled_count (delete_enrollments d sid cid) (- 1) cid)
                       (c_id c')))"
  proof (cases "c_id c = cid")
    case True
    from one_row_per_pair [OF un ex] delete_rows_same_course [of d sid cid]
    have "int (length (enrolled_rows (delete_enrollments d sid cid) cid)) =
          int (length (enrolled_rows d cid)) - 1" by simp
    with True cnt c' show ?thesis by (simp add: enrolled_rows_bump)
  next
    case False
    with cnt c' show ?thesis by (simp add: enrolled_rows_bump delete_rows_other_course)
  qed
qed

lemma enroll_preserves:
  assumes "counts_consistent d" and "enrollments_unique d"
  shows "counts_consistent (snd (enrollStudent now d sid cid)) \<and>
         enrollments_unique (snd (enrollStudent now d sid cid))"
  using enroll_store [of now d sid cid] assms insert_counts insert_unique by auto

lemma drop_preserves:
  assumes "counts_consistent d" and "enrollments_unique d"
  shows "counts_consistent (snd (dropCourse d sid cid)) \<and>
         enrollments_unique (snd (dropCourse d sid cid))"
  using drop_store [of d sid cid] assms delete_counts delete_unique by auto

lemma register_preserves:
  assumes "counts_consistent d" and "enrollments_unique d"
  shows "counts_consistent (snd (registerStudent fresh now d name email)) \<and>
         enrollments_unique (snd (registerStudent fresh now d name email))"
  using assms register_store [of fresh now d name email]
  by (simp add: counts_consistent_def enrollments_unique_def enrolled_rows_def)

lemma executeTool_preserves:
  assumes "counts_consistent d" and "enrollments_unique d"
  shows "counts_consistent (snd (executeTool ev d name args)) \<and>
         enrollments_unique (snd (executeTool ev d name args))"
  using assms
  by (simp add: executeTool_def enroll_preserves drop_preserves register_preserves
        list_store check_store)

text \<open>
  C1. Starting from a store in which every course carries the number of Enrollment rows
  that reference it (and which holds at most one row per pair of student and course, as
  the table requires), every sequence of operations, enroll and drop among them, leaves
  a store in which every course again carries the number of Enrollment rows that
  reference it.
\<close>

theorem enrolled_count_matches_rows:
  assumes "counts_consistent d" and "enrollments_unique d"
  shows "(\<forall>c \<in> set (courses (run_tools d calls)).
            c_enrolled_count c = int (length (enrolled_rows (run_tools d calls) (c_id c)))) \<and>
         enrollments_unique (run_tools d calls)"
proof -
  have "counts_consistent (run_tools d calls) \<and> enrollments_unique (run_tools d calls)"
    using assms
  proof (induction calls arbitrary: d)
    case Nil
    then show ?case by simp
  next
    case (Cons call calls)
    obtain ev name args where call: "call = (ev, name, args)" by (cases call) auto
    from Cons.prems executeTool_preserves [of d ev name args]
    have "counts_consistent (snd (executeTool ev d name args))"
         "enrollments_unique (snd (executeTool ev d name args))" by simp_all
    then show ?case using Cons.IH call by simp
  qed
  then show ?thesis by (simp add: counts_consistent_def)
qed

theorem enrolled_count_matches_rows_witness:
  "map c_enrolled_count (courses (run_tools campus
        [(noon, ''enroll_student'', pair_args ''STU-A1B2C3'' ''MATH201''),
         (noon, ''enroll_student'', pair_args ''STU-D4E5F6'' ''CS101''),
         (noon, ''drop_course'', pair_args ''STU-A1B2C3'' ''MATH201'')])) =
   map (\<lambda>c. int (length (enrolled_rows (run_tools campus
        [(noon, ''enroll_student'', pair_args ''STU-A1B2C3'' ''MATH201''),
         (noon, ''enroll_student'', pair_args ''STU-D4E5F6'' ''CS101''),
         (noon, ''drop_course'', pair_args ''STU-A1B2C3'' ''MATH201'')]) (c_id c))))
     (courses (run_tools campus
        [(noon, ''enroll_student'', pair_args ''STU-A1B2C3'' ''MATH201''),
         (noon, ''enroll_student'', pair_args ''STU-D4E5F6'' ''CS101''),
         (noon, ''drop_course'', pair_args ''STU-A1B2C3'' ''MATH201'')])) \<and>
   map c_enrolled_count (courses (run_tools campus
        [(noon, ''enroll_student'', pair_args ''STU-A1B2C3'' ''MATH201''),
         (noon, ''enroll_student'', pair_args ''STU-D4E5F6'' ''CS101''),
         (noon, ''drop_course'', pair_args ''STU-A1B2C3'' ''MATH201'')])) = [1, 0]"
proof -
  let ?calls = "[(noon, ''enroll_student'', pair_args ''STU-A1B2C3'' ''MATH201''),
         (noon, ''enroll_student'', pair_args ''STU-D4E5F6'' ''CS101''),
         (noon, ''drop_course'', pair_args ''STU-A1B2C3'' ''MATH201'')]"
  have cc: "counts_consistent campus"
    by (simp add: counts_consistent_def enrolled_rows_def campus_def)
  have un: "enrollments_unique campus"
    by (simp add: enrollments_unique_def campus_def)
  have run: "map c_enrolled_count (courses (run_tools campus ?calls)) = [1, 0]"
    by (simp add: executeTool_def enrollStudent_def dropCourse_def students_by_id_def
          courses_by_id_def enrollments_of_def insert_enrollment_def delete_enrollments_def
          bump_enrolled_count_def pair_args_def noon_def campus_def)
  from enrolled_count_matches_rows [OF cc un, of ?calls]
  have "\<forall>c \<in> set (courses (run_tools campus ?calls)).
          c_enrolled_count c = int (length (enrolled_rows (run_tools campus ?calls) (c_id c)))"
    by (rule conjunct1)
  then have "map c_enrolled_count (courses (run_tools campus ?calls)) =
      map (\<lambda>c. int (length (enrolled_rows (run_tools campus ?calls) (c_id c))))
        (courses (run_tools campus ?calls))"
    by (simp only: map_eq_conv)
  from this run show ?thesis by (rule conjI)
qed

section \<open>The rounds of the loop\<close>

lemma store_before_shift:
  "store_before evs (tc # tcs) d (Suc i) =
     store_before (\<lambda>j. evs (Suc j)) tcs
       (snd (executeTool (evs 0) d (tc_name tc) (tc_arguments tc))) i"
  by (induction i) simp_all

lemma result_turn_shift:
  "result_turn evs (tc # tcs) d (Suc i) =
     result_turn (\<lambda>j. evs (Suc j)) tcs
       (snd (executeTool (evs 0) d (tc_name tc) (tc_arguments tc))) i"
  by (simp add: result_turn_def store_before_shift del: store_before.simps)

text \<open>The loop over the tool calls of a round appends exactly the result turns, in the
  order of the calls, and leaves the store reached by executing all of them in order.\<close>

lemma run_tool_calls_turns:
  "run_tool_calls evs k tcs ms d =
     (ms @ map (result_turn (\<lambda>j. evs (k + j)) tcs d) [0..<length tcs],
      store_before (\<lambda>j. evs (k + j)) tcs d (length tcs))"
proof (induction tcs arbitrary: k ms d)
  case Nil
  then show ?case by simp
next
  case (Cons tc tcs)
  obtain result d' where ex: "executeTool (evs k) d (tc_name tc) (tc_arguments tc) = (result, d')"
    by (cases "executeTool (evs k) d (tc_name tc) (tc_arguments tc)") auto
  have first: "result_turn (\<lambda>j. evs (k + j)) (tc # tcs) d 0 =
      \<lparr>role = ''user'', content = ''Tool result for '' @ tc_name tc @ '': '' @ result\<rparr>"
    by (simp add: result_turn_def ex)
  have up: "[0..<length (tc # tcs)] = 0 # map Suc [0..<length tcs]"
    by (simp add: upt_conv_Cons map_Suc_upt del: upt_Suc)
  have rest: "map (result_turn (\<lambda>j. evs (k + j)) (tc # tcs) d) (map Suc [0..<length tcs]) =
      map (result_turn (\<lambda>j. evs (Suc k + j)) tcs d') [0..<length tcs]"
  proof -
    have pt: "result_turn (\<lambda>j. evs (k + j)) (tc # tcs) d (Suc x) =
          result_turn (\<lambda>j. evs (Suc k + j)) tcs d' x" for x
      by (simp add: result_turn_shift ex)
    show ?thesis by (simp only: map_map comp_def pt)
  qed
  have st: "store_before (\<lambda>j. evs (k + j)) (tc # tcs) d (length (tc # tcs)) =
      store_before (\<lambda>j. evs (Suc k + j)) tcs d' (length tcs)"
    using ex store_before_shift [of "\<lambda>j. evs (k + j)" tc tcs d "length tcs"] by simp
  have "run_tool_calls evs k (tc # tcs) ms d =
        run_tool_calls evs (Suc k) tcs
          (ms @ [result_turn (\<lambda>j. evs (k + j)) (tc # tcs) d 0]) d'"
    by (simp only: run_tool_calls.simps ex first prod.case)
  also have "\<dots> =
        ((ms @ [result_turn (\<lambda>j. evs (k + j)) (tc # tcs) d 0]) @
           map (result_turn (\<lambda>j. evs (Suc k + j)) tcs d') [0..<length tcs],
         store_before (\<lambda>j. evs (Suc k + j)) tcs d' (length tcs))"
    by (rule Cons.IH)
  also have "\<dots> =
        (ms @ map (result_turn (\<lambda>j. evs (k + j)) (tc # tcs) d) [0..<length (tc # tcs)],
         store_before (\<lambda>j. evs (k + j)) (tc # tcs) d (length (tc # tcs)))"
    by (simp only: up st rest [symmetric] list.map append_assoc append_Cons append_Nil)
  finally show ?case .
qed

text \<open>
  C3. In a round whose model response holds a non-empty list of invocations, the loop
  appends one assistant turn with the summary of all of them, then one result turn per
  invocation, in the order the model returned them; the \<open>i\<close>-th result turn is tagged
  with the name of the \<open>i\<close>-th invocation and holds what executeTool returned for it in
  the store left by the invocations before it, whatever those returned. The next model
  invocation sees all these turns.
\<close>

theorem tool_round_dispatch:
  assumes "round < maxRounds"
      and "requested (ai_run w round (messages a)) = tcs"
      and "tcs \<noteq> []"
  shows "callLLM_loop w round a =
         callLLM_loop w (Suc round)
           (a\<lparr>invocations := Suc (invocations a),
              messages := messages a @
                 [\<lparr>role = ''assistant'', content = toolCallSummary w tcs\<rparr>] @
                 map (result_turn (surroundings w round) tcs (store a)) [0..<length tcs],
              store := store_before (surroundings w round) tcs (store a) (length tcs)\<rparr>)"
  using assms
  by (subst callLLM_loop.simps) (simp add: Let_def run_tool_calls_turns)

theorem tool_round_dispatch_witness:
  "0 < maxRounds \<and>
   requested (ai_run eager_world 0 []) = two_calls \<and> two_calls \<noteq> [] \<and>
   callLLM_loop eager_world 0 \<lparr>messages = [], store = campus, invocations = 0\<rparr> =
   callLLM_loop eager_world 1
     \<lparr>messages =
        [\<lparr>role = ''assistant'',
          content = ''[Calling enroll_student({})]'' @ [CHR 0x0A] @ ''[Calling enroll_student({})]''\<rparr>,
         \<lparr>role = ''user'',
          content = ''Tool result for enroll_student: Error: Student UNKNOWN not found. Please register first.''\<rparr>,
         \<lparr>role = ''user'',
          content = ''Tool result for enroll_student: Successfully enrolled student STU-A1B2C3 (Alice) in CS101 (Introduction to Computer Science).''\<rparr>],
      store = snd (enrollStudent ''2025-01-02T12:00:00.000Z'' campus ''STU-A1B2C3'' ''CS101''),
      invocations = 1\<rparr>"
proof -
  have r: "0 < maxRounds"
    by (simp add: maxRounds_def)
  have q: "requested (ai_run eager_world 0
             (messages \<lparr>messages = [], store = campus, invocations = 0\<rparr>)) = two_calls"
    by (simp add: requested_def eager_world_def)
  have n: "two_calls \<noteq> []"
    by (simp add: two_calls_def)
  have e0: "executeTool noon campus ''enroll_student'' (pair_args ''UNKNOWN'' ''CS101'') =
      (''Error: Student UNKNOWN not found. Please register first.'', campus)"
    by (simp add: executeTool_def enrollStudent_def students_by_id_def pair_args_def campus_def)
  have e1: "executeTool noon campus ''enroll_student'' (pair_args ''STU-A1B2C3'' ''CS101'') =
      (''Successfully enrolled student STU-A1B2C3 (Alice) in CS101 (Introduction to Computer Science).'',
       snd (enrollStudent ''2025-01-02T12:00:00.000Z'' campus ''STU-A1B2C3'' ''CS101''))"
    by (simp add: executeTool_def enrollStudent_def students_by_id_def courses_by_id_def
          enrollments_of_def pair_args_def noon_def campus_def)
  have s1: "store_before (\<lambda>i. noon) two_calls campus (Suc 0) = campus"
    by (simp add: two_calls_def e0)
  have s2: "store_before (\<lambda>i. noon) two_calls campus (Suc (Suc 0)) =
      snd (enrollStudent ''2025-01-02T12:00:00.000Z'' campus ''STU-A1B2C3'' ''CS101'')"
    using s1 by (simp add: two_calls_def e1)
  have t0: "result_turn (\<lambda>i. noon) two_calls campus 0 =
      \<lparr>role = ''user'',
       content = ''Tool result for enroll_student: Error: Student UNKNOWN not found. Please register first.''\<rparr>"
    by (simp add: result_turn_def two_calls_def e0)
  have t1: "result_turn (\<lambda>i. noon) two_calls campus (Suc 0) =
      \<lparr>role = ''user'',
       content = ''Tool result for enroll_student: Successfully enrolled student STU-A1B2C3 (Alice) in CS101 (Introduction to Computer Science).''\<rparr>"
    using s1 by (simp add: result_turn_def two_calls_def e1 del: store_before.simps)
  have len: "[0..<length two_calls] = [0, Suc 0]"
    by (simp add: two_calls_def)
  have len2: "length two_calls = Suc (Suc 0)"
    by (simp add: two_calls_def)
  have sm: "toolCallSummary eager_world two_calls =
      ''[Calling enroll_student({})]'' @ [CHR 0x0A] @ ''[Calling enroll_student({})]''"
    by (simp add: toolCallSummary_def two_calls_def eager_world_def)
  have sur: "surroundings eager_world 0 = (\<lambda>i. noon)"
    by (simp add: eager_world_def)
  from tool_round_dispatch [OF r q n] r q n
  show ?thesis
    by (simp add: sur sm len len2 t0 t1 s2 del: store_before.simps)
qed

text \<open>
  C8. In a round whose model response holds neither a text answer (the field is absent
  or the empty string) nor any invocation (the list is absent or empty), the loop
  returns the apology at once: the model has been invoked this one time in the round
  and is not invoked again, and the conversation and the store are untouched.
\<close>

theorem malformed_round:
  assumes "round < maxRounds"
      and "requested (ai_run w round (messages a)) = []"
      and "response (ai_run w round (messages a)) = None \<or>
           response (ai_run w round (messages a)) = Some []"
  shows "callLLM_loop w round a =
           (''I'' @ [CHR 0x27] @ ''m sorry, I couldn'' @ [CHR 0x27] @
            ''t process that request. Could you rephrase?'',
            a\<lparr>invocations := Suc (invocations a)\<rparr>)"
  using assms
  by (subst callLLM_loop.simps) (auto simp: Let_def apology_def)

theorem malformed_round_witness:
  "0 < maxRounds \<and>
   requested (ai_run silent_world 0 []) = [] \<and>
   response (ai_run silent_world 0 []) = None \<and>
   callLLM silent_world [] campus =
     (''I'' @ [CHR 0x27] @ ''m sorry, I couldn'' @ [CHR 0x27] @
      ''t process that request. Could you rephrase?'',
      \<lparr>messages = [], store = campus, invocations = 1\<rparr>)"
proof -
  have r: "0 < maxRounds"
    by (simp add: maxRounds_def)
  have q: "requested (ai_run silent_world 0
             (messages \<lparr>messages = [], store = campus, invocations = 0\<rparr>)) = []"
    by (simp add: requested_def silent_world_def)
  have t: "response (ai_run silent_world 0
             (messages \<lparr>messages = [], store = campus, invocations = 0\<rparr>)) = None \<or>
           response (ai_run silent_world 0
             (messages \<lparr>messages = [], store = campus, invocations = 0\<rparr>)) = Some []"
    by (simp add: silent_world_def)
  from malformed_round [OF r q t] r q
  show ?thesis by (simp add: callLLM_def silent_world_def)
qed

section \<open>The bound on the rounds\<close>

lemma invocations_bound:
  "invocations (snd (callLLM_loop w round a)) \<le> invocations a + (maxRounds - round)"
proof (induction w round a rule: callLLM_loop.induct)
  case (1 w round a)
  show ?case
  proof (cases "round < maxRounds")
    case False
    then show ?thesis by (subst callLLM_loop.simps) simp
  next
    case True
    let ?resp = "ai_run w round (messages a)"
    let ?a1 = "a\<lparr>invocations := Suc (invocations a)\<rparr>"
    show ?thesis
    proof (cases "requested ?resp \<noteq> []")
      case False
      with True show ?thesis
        by (subst callLLM_loop.simps) (auto simp: Let_def split: option.splits)
    next
      case calls: True
      obtain ms d where run: "run_tool_calls (surroundings w round) 0 (requested ?resp)
          (messages ?a1 @ [\<lparr>role = ''assistant'', content = toolCallSummary w (requested ?resp)\<rparr>])
          (store ?a1) = (ms, d)"
        by (cases "run_tool_calls (surroundings w round) 0 (requested ?resp)
          (messages ?a1 @ [\<lparr>role = ''assistant'', content = toolCallSummary w (requested ?resp)\<rparr>])
          (store ?a1)") auto
      from "1.IH" [OF True refl refl calls run [symmetric]]
      have "invocations (snd (callLLM_loop w (Suc round) (?a1\<lparr>messages := ms, store := d\<rparr>)))
            \<le> Suc (invocations a) + (maxRounds - Suc round)" by simp
      moreover have "callLLM_loop w round a =
          callLLM_loop w (Suc round) (?a1\<lparr>messages := ms, store := d\<rparr>)"
        using True calls run by (subst callLLM_loop.simps) (simp add: Let_def)
      ultimately show ?thesis using True by simp
    qed
  qed
qed

lemma all_rounds_request:
  assumes "\<forall>n<maxRounds. \<forall>ms. requested (ai_run w n ms) \<noteq> []"
  shows "fst (callLLM_loop w round a) = completed \<and>
         invocations (snd (callLLM_loop w round a)) = invocations a + (maxRounds - round)"
  using assms
proof (induction w round a rule: callLLM_loop.induct)
  case (1 w round a)
  show ?case
  proof (cases "round < maxRounds")
    case False
    then show ?thesis by (subst callLLM_loop.simps, subst (2) callLLM_loop.simps) simp
  next
    case True
    let ?resp = "ai_run w round (messages a)"
    let ?a1 = "a\<lparr>invocations := Suc (invocations a)\<rparr>"
    from True "1.prems" have calls: "requested ?resp \<noteq> []" by simp
    obtain ms d where run: "run_tool_calls (surroundings w round) 0 (requested ?resp)
        (messages ?a1 @ [\<lparr>role = ''assistant'', content = toolCallSummary w (requested ?resp)\<rparr>])
        (store ?a1) = (ms, d)"
      by (cases "run_tool_calls (surroundings w round) 0 (requested ?resp)
        (messages ?a1 @ [\<lparr>role = ''assistant'', content = toolCallSummary w (requested ?resp)\<rparr>])
        (store ?a1)") auto
    have step: "callLLM_loop w round a =
        callLLM_loop w (Suc round) (?a1\<lparr>messages := ms, store := d\<rparr>)"
      using True calls run by (subst callLLM_loop.simps) (simp add: Let_def)
    from "1.IH" [OF True refl refl calls run [symmetric] "1.prems"] True
    show ?thesis unfolding step by simp
  qed
qed

text \<open>
  C2. Whatever the model answers, callLLM returns, having invoked the model at most 5
  times; and when the answer of each of the 5 rounds asks for invocations, it returns the
  static text "I completed the requested operations. Is there anything else I can help
  you with?" after exactly 5 model invocations.
\<close>

theorem callLLM_at_most_five:
  "invocations (snd (callLLM w ms d)) \<le> 5 \<and>
   ((\<forall>n<5. \<forall>m. requested (ai_run w n m) \<noteq> []) \<longrightarrow>
      fst (callLLM w ms d) =
        ''I completed the requested operations. Is there anything else I can help you with?'' \<and>
      invocations (snd (callLLM w ms d)) = 5)"
  using invocations_bound [of w 0 "\<lparr>messages = ms, store = d, invocations = 0\<rparr>"]
    all_rounds_request [of w 0 "\<lparr>messages = ms, store = d, invocations = 0\<rparr>"]
  by (simp add: callLLM_def maxRounds_def completed_def)

theorem callLLM_at_most_five_witness:
  "fst (callLLM eager_world [] campus) =
     ''I completed the requested operations. Is there anything else I can help you with?'' \<and>
   invocations (snd (callLLM eager_world [] campus)) = 5"
proof -
  have every: "\<forall>n<5. \<forall>m. requested (ai_run eager_world n m) \<noteq> []"
    by (simp add: requested_def eager_world_def two_calls_def)
  from callLLM_at_most_five [of eager_world "[]" campus] every
  show ?thesis by simp
qed

end
